theory Spec2Isabelle
  imports Complex_Main "HOL-Library.Multiset"
begin

section \<open>Arrays, exceptions and method results\<close>

text \<open>
  The program (\<^verbatim>\<open>src/code/hw1-q2.py\<close>) computes with numpy arrays of floats. The
  embedding idealises a float as a \<^typ>\<open>real\<close>: rounding, overflow, infinities and NaN
  are outside the model, with the one exception of the division \<open>0.0 / 0\<close> in
  \<^verbatim>\<open>evaluate\<close>, whose NaN is the value \<open>None\<close>. Shapes are modelled exactly,
  since numpy decides from the shapes alone whether an operation computes, broadcasts
  or raises.

  A one-dimensional array is a list. A two-dimensional array carries its number of
  columns, because an array of shape \<open>(0, c)\<close> has no row to read \<open>c\<close> from.
\<close>

type_synonym vec = "real list"

datatype mat = Mat (ncols: nat) (rows: "vec list")

definition nrows :: "mat \<Rightarrow> nat" where
  "nrows A = length (rows A)"

text \<open>Every numpy array is rectangular: each row has \<open>ncols\<close> entries.\<close>

definition wf_mat :: "mat \<Rightarrow> bool" where
  "wf_mat A = list_all (\<lambda>r. length r = ncols A) (rows A)"

datatype error = ValueError | IndexError | LinAlgError

text \<open>
  A method call returns the exception it raised or its value, together with the state
  in which it leaves the object (\<^verbatim>\<open>self\<close>).
\<close>

type_synonym ('a, 'm) result = "(error + 'a) \<times> 'm"

subsection \<open>The numpy operations the program uses\<close>

definition dotp :: "vec \<Rightarrow> vec \<Rightarrow> real" where
  "dotp a b = sum_list (map2 (*) a b)"

text \<open>\<^verbatim>\<open>np.dot(a, b)\<close>, both one-dimensional: the inner product; the lengths must agree.\<close>

definition np_dot_vv :: "vec \<Rightarrow> vec \<Rightarrow> error + real" where
  "np_dot_vv a b = (if length a = length b then Inr (dotp a b) else Inl ValueError)"

text \<open>\<^verbatim>\<open>np.dot(a, s)\<close>, a one-dimensional array and a scalar: the elementwise product.\<close>

definition np_dot_vs :: "vec \<Rightarrow> real \<Rightarrow> vec" where
  "np_dot_vs a s = map (\<lambda>x. x * s) a"

text \<open>
  \<^verbatim>\<open>np.dot(A, x)\<close>, two-dimensional by one-dimensional: the last axis of \<open>A\<close> must be
  as long as \<open>x\<close>; the result has one entry per row.
\<close>

definition np_dot_mv :: "mat \<Rightarrow> vec \<Rightarrow> error + vec" where
  "np_dot_mv A x =
     (if ncols A = length x then Inr (map (\<lambda>r. dotp r x) (rows A)) else Inl ValueError)"

definition col :: "mat \<Rightarrow> nat \<Rightarrow> vec" where
  "col A j = map (\<lambda>r. r ! j) (rows A)"

text \<open>\<^verbatim>\<open>np.transpose(A)\<close> and \<^verbatim>\<open>A.T\<close> of a two-dimensional array.\<close>

definition np_transpose :: "mat \<Rightarrow> mat" where
  "np_transpose A = Mat (nrows A) (map (col A) [0..<ncols A])"

text \<open>\<^verbatim>\<open>np.matmul(A, B)\<close> and \<^verbatim>\<open>A.dot(B)\<close>, both two-dimensional.\<close>

definition np_matmul :: "mat \<Rightarrow> mat \<Rightarrow> error + mat" where
  "np_matmul A B =
     (if ncols A = nrows B
      then Inr (Mat (ncols B) (map (\<lambda>r. map (\<lambda>j. dotp r (col B j)) [0..<ncols B]) (rows A)))
      else Inl ValueError)"

text \<open>\<^verbatim>\<open>np.identity(k)\<close>.\<close>

definition np_identity :: "nat \<Rightarrow> mat" where
  "np_identity k = Mat k (map (\<lambda>i. map (\<lambda>j. if i = j then 1 else 0) [0..<k]) [0..<k])"

text \<open>A scalar times an array, \<^verbatim>\<open>s * A\<close> or \<^verbatim>\<open>A * s\<close>.\<close>

definition scale_v :: "real \<Rightarrow> vec \<Rightarrow> vec" where
  "scale_v s a = map (\<lambda>x. s * x) a"

definition scale_m :: "real \<Rightarrow> mat \<Rightarrow> mat" where
  "scale_m s A = Mat (ncols A) (map (scale_v s) (rows A))"

text \<open>
  Broadcasting. Two axes are compatible when they are equally long or one of them has
  length 1; the axis of length 1 is stretched to the other's length.
\<close>

definition bdim :: "nat \<Rightarrow> nat \<Rightarrow> nat option" where
  "bdim a b = (if a = b then Some a else if a = 1 then Some b else if b = 1 then Some a else None)"

definition stretch :: "nat \<Rightarrow> 'a list \<Rightarrow> 'a list" where
  "stretch n xs = (if length xs = n then xs else replicate n (hd xs))"

text \<open>An elementwise binary operation on two one-dimensional arrays (\<open>a + b\<close>, \<open>a * b\<close>, \<open>a - b\<close>).\<close>

definition bcast_vv :: "(real \<Rightarrow> real \<Rightarrow> real) \<Rightarrow> vec \<Rightarrow> vec \<Rightarrow> error + vec" where
  "bcast_vv f a b =
     (case bdim (length a) (length b) of
        None \<Rightarrow> Inl ValueError
      | Some n \<Rightarrow> Inr (map2 f (stretch n a) (stretch n b)))"

text \<open>An elementwise binary operation on two two-dimensional arrays.\<close>

definition bcast_mm :: "(real \<Rightarrow> real \<Rightarrow> real) \<Rightarrow> mat \<Rightarrow> mat \<Rightarrow> error + mat" where
  "bcast_mm f A B =
     (case (bdim (nrows A) (nrows B), bdim (ncols A) (ncols B)) of
        (Some r, Some c) \<Rightarrow>
          Inr (Mat c (map2 (map2 f)
                 (map (stretch c) (stretch r (rows A)))
                 (map (stretch c) (stretch r (rows B)))))
      | _ \<Rightarrow> Inl ValueError)"

text \<open>
  The in-place \<^verbatim>\<open>a -= b\<close>: the result is written into \<open>a\<close>, so \<open>b\<close> is stretched to
  the shape of \<open>a\<close> and \<open>a\<close> is never stretched.
\<close>

definition np_isub_v :: "vec \<Rightarrow> vec \<Rightarrow> error + vec" where
  "np_isub_v a b =
     (if length b = length a \<or> length b = 1
      then Inr (map2 (-) a (stretch (length a) b))
      else Inl ValueError)"

definition np_isub_m :: "mat \<Rightarrow> mat \<Rightarrow> error + mat" where
  "np_isub_m A B =
     (if (nrows B = nrows A \<or> nrows B = 1) \<and> (ncols B = ncols A \<or> ncols B = 1)
      then Inr (Mat (ncols A) (map2 (map2 (-))
                  (rows A)
                  (map (stretch (ncols A)) (stretch (nrows A) (rows B)))))
      else Inl ValueError)"

text \<open>\<^verbatim>\<open>np.maximum(a, 0)\<close>, \<^verbatim>\<open>a - s\<close> for a scalar \<open>s\<close>, and \<^verbatim>\<open>1*(a > 0)\<close>.\<close>

definition np_maximum0 :: "vec \<Rightarrow> vec" where
  "np_maximum0 a = map (\<lambda>x. max x 0) a"

definition sub_vs :: "vec \<Rightarrow> real \<Rightarrow> vec" where
  "sub_vs a s = map (\<lambda>x. x - s) a"

definition positive_mask :: "vec \<Rightarrow> vec" where
  "positive_mask a = map (\<lambda>x. if x > 0 then 1 else 0) a"

text \<open>\<^verbatim>\<open>a[:, None]\<close>, a column, and \<^verbatim>\<open>a[:, None].T\<close>, a row.\<close>

definition column_of :: "vec \<Rightarrow> mat" where
  "column_of a = Mat 1 (map (\<lambda>x. [x]) a)"

definition row_of :: "vec \<Rightarrow> mat" where
  "row_of a = np_transpose (column_of a)"

text \<open>
  \<^verbatim>\<open>a[idx]\<close> for an array of indices (each at least 0): the entries at these indices,
  in the order of \<open>idx\<close>; an index past the end raises.
\<close>

definition np_take :: "'a list \<Rightarrow> nat list \<Rightarrow> error + 'a list" where
  "np_take a idx = (if list_all (\<lambda>i. i < length a) idx then Inr (map (\<lambda>i. a ! i) idx) else Inl IndexError)"

section \<open>The shared base class\<close>

text \<open>
  \<^verbatim>\<open>_RegressionModel.train_epoch\<close>: the loop over \<^verbatim>\<open>zip(X, y)\<close>, which pairs the rows of
  \<open>X\<close> with the entries of \<open>y\<close> and stops at the end of the shorter one. The subclass's
  \<^verbatim>\<open>update_weight\<close> is the parameter \<open>update_weight\<close>; an exception it raises ends
  the loop and leaves the object as the earlier updates made it.
\<close>

fun train_epoch_loop ::
  "('m \<Rightarrow> vec \<Rightarrow> real \<Rightarrow> real \<Rightarrow> (unit, 'm) result) \<Rightarrow> 'm \<Rightarrow> (vec \<times> real) list \<Rightarrow> real \<Rightarrow> (unit, 'm) result"
where
  "train_epoch_loop update_weight self [] learning_rate = (Inr (), self)"
| "train_epoch_loop update_weight self ((x_i, y_i) # rest) learning_rate =
     (case update_weight self x_i y_i learning_rate of
        (Inl e, self') \<Rightarrow> (Inl e, self')
      | (Inr _, self') \<Rightarrow> train_epoch_loop update_weight self' rest learning_rate)"

definition train_epoch ::
  "('m \<Rightarrow> vec \<Rightarrow> real \<Rightarrow> real \<Rightarrow> (unit, 'm) result) \<Rightarrow> 'm \<Rightarrow> mat \<Rightarrow> vec \<Rightarrow> real \<Rightarrow> (unit, 'm) result"
where
  "train_epoch update_weight self X y learning_rate =
     train_epoch_loop update_weight self (zip (rows X) y) learning_rate"

text \<open>
  \<^verbatim>\<open>_RegressionModel.evaluate\<close>. The subclass's \<^verbatim>\<open>predict\<close> is the parameter. The
  difference \<^verbatim>\<open>yhat - y\<close> broadcasts; \<^verbatim>\<open>np.dot(error, error)\<close> is the inner product of
  an array with itself; the division by \<^verbatim>\<open>y.shape[0]\<close> is a float division, which
  numpy answers with NaN (\<open>None\<close>) and a warning when \<open>y\<close> is empty, not an exception.
\<close>

definition evaluate ::
  "('m \<Rightarrow> mat \<Rightarrow> (vec, 'm) result) \<Rightarrow> 'm \<Rightarrow> mat \<Rightarrow> vec \<Rightarrow> (real option, 'm) result"
where
  "evaluate predict self X y =
     (case predict self X of
        (Inl e, self') \<Rightarrow> (Inl e, self')
      | (Inr yhat, self') \<Rightarrow>
          (case bcast_vv (-) yhat y of
             Inl e \<Rightarrow> (Inl e, self')
           | Inr err \<Rightarrow>
               (let squared_error = dotp err err in
                if length y = 0 then (Inr None, self')
                else (let mean_squared_error = squared_error / real (length y)
                      in (Inr (Some (sqrt mean_squared_error)), self')))))"

section \<open>LinearRegression\<close>

record LinearRegression =
  w :: vec

text \<open>
  \<^verbatim>\<open>LinearRegression.predict\<close> is \<^verbatim>\<open>np.dot(X, self.w)\<close>. \<^verbatim>\<open>evaluate\<close> calls it with
  the two-dimensional \<open>X\<close>, \<^verbatim>\<open>update_weight\<close> with the one-dimensional row \<open>x_i\<close>.
\<close>

definition LinearRegression_predict :: "LinearRegression \<Rightarrow> mat \<Rightarrow> (vec, LinearRegression) result" where
  "LinearRegression_predict self X = (np_dot_mv X (w self), self)"

definition LinearRegression_predict_row :: "LinearRegression \<Rightarrow> vec \<Rightarrow> (real, LinearRegression) result" where
  "LinearRegression_predict_row self x_i = (np_dot_vv x_i (w self), self)"

definition LinearRegression_update_weight ::
  "LinearRegression \<Rightarrow> vec \<Rightarrow> real \<Rightarrow> real \<Rightarrow> (unit, LinearRegression) result"
where
  "LinearRegression_update_weight self x_i y_i learning_rate =
     (case LinearRegression_predict_row self x_i of
        (Inl e, self') \<Rightarrow> (Inl e, self')
      | (Inr y_hat, self') \<Rightarrow>
          if y_hat \<noteq> y_i then
            (let dL = np_dot_vs (map uminus x_i) (y_i - y_hat) in
             (case np_isub_v (w self') (scale_v learning_rate dL) of
                Inl e \<Rightarrow> (Inl e, self')
              | Inr w' \<Rightarrow> (Inr (), self'\<lparr>w := w'\<rparr>)))
          else (Inr (), self'))"

section \<open>NeuralRegression\<close>

text \<open>
  \<^verbatim>\<open>__init__\<close> draws \<open>w1\<close> (\<open>hidden \<times> n_features\<close>) and \<open>w2\<close> (\<open>1 \<times> hidden\<close>) at random
  and sets \<open>b1\<close> (\<open>hidden\<close> entries) and \<open>b2\<close> (one entry) to zero. The random draw is
  not modelled: the properties below hold for every state of these shapes.
\<close>

record NeuralRegression =
  w1 :: mat
  b1 :: vec
  w2 :: mat
  b2 :: vec

definition NeuralRegression_shape :: "nat \<Rightarrow> nat \<Rightarrow> NeuralRegression \<Rightarrow> bool" where
  "NeuralRegression_shape n_features hidden self =
     (wf_mat (w1 self) \<and> nrows (w1 self) = hidden \<and> ncols (w1 self) = n_features \<and>
      length (b1 self) = hidden \<and>
      wf_mat (w2 self) \<and> nrows (w2 self) = 1 \<and> ncols (w2 self) = hidden \<and>
      length (b2 self) = 1)"

text \<open>
  \<^verbatim>\<open>NeuralRegression.update_weight\<close>. Every gradient is computed before the first
  parameter is written, and the four in-place subtractions follow in the order of the
  source; an exception leaves the object as the earlier subtractions made it.
\<close>

definition NeuralRegression_update_weight ::
  "NeuralRegression \<Rightarrow> vec \<Rightarrow> real \<Rightarrow> real \<Rightarrow> (unit, NeuralRegression) result"
where
  "NeuralRegression_update_weight self x_i y_i learning_rate =
     (case np_dot_mv (w1 self) x_i of Inl e \<Rightarrow> (Inl e, self) | Inr d1 \<Rightarrow>
     (case bcast_vv (+) d1 (b1 self) of Inl e \<Rightarrow> (Inl e, self) | Inr z1 \<Rightarrow>
     (let h1 = np_maximum0 z1 in
     (case np_dot_mv (w2 self) h1 of Inl e \<Rightarrow> (Inl e, self) | Inr d2 \<Rightarrow>
     (case bcast_vv (+) d2 (b2 self) of Inl e \<Rightarrow> (Inl e, self) | Inr z2 \<Rightarrow>
     (let h2 = np_maximum0 z2;
          grad_z2 = sub_vs h2 y_i in
     (case np_matmul (column_of grad_z2) (row_of h1) of Inl e \<Rightarrow> (Inl e, self) | Inr grad_W2 \<Rightarrow>
     (let grad_b2 = grad_z2 in
     (case np_dot_mv (np_transpose (w2 self)) grad_z2 of Inl e \<Rightarrow> (Inl e, self) | Inr grad_h1 \<Rightarrow>
     (case bcast_vv (*) grad_h1 (positive_mask h1) of Inl e \<Rightarrow> (Inl e, self) | Inr grad_z1 \<Rightarrow>
     (case np_matmul (column_of grad_z1) (row_of x_i) of Inl e \<Rightarrow> (Inl e, self) | Inr grad_W1 \<Rightarrow>
     (let grad_b1 = grad_z1 in
     (case np_isub_m (w1 self) (scale_m learning_rate grad_W1) of Inl e \<Rightarrow> (Inl e, self) | Inr w1' \<Rightarrow>
     (let self1 = self\<lparr>w1 := w1'\<rparr> in
     (case np_isub_v (b1 self1) (scale_v learning_rate grad_b1) of Inl e \<Rightarrow> (Inl e, self1) | Inr b1' \<Rightarrow>
     (let self2 = self1\<lparr>b1 := b1'\<rparr> in
     (case np_isub_m (w2 self2) (scale_m learning_rate grad_W2) of Inl e \<Rightarrow> (Inl e, self2) | Inr w2' \<Rightarrow>
     (let self3 = self2\<lparr>w2 := w2'\<rparr> in
     (case np_isub_v (b2 self3) (scale_v learning_rate grad_b2) of Inl e \<Rightarrow> (Inl e, self3) | Inr b2' \<Rightarrow>
        (Inr (), self3\<lparr>b2 := b2'\<rparr>))))))))))))))))))))"

text \<open>
  \<^verbatim>\<open>NeuralRegression.predict\<close>: the loop over the rows of \<open>X\<close>, appending \<^verbatim>\<open>z2[0]\<close>
  to \<open>Y_hat\<close>; \<^verbatim>\<open>z2[0]\<close> raises on an empty \<open>z2\<close>. The body of the loop, up to the
  value it appends, is \<open>NeuralRegression_predict_body\<close>.
\<close>

definition NeuralRegression_predict_body :: "NeuralRegression \<Rightarrow> vec \<Rightarrow> error + real" where
  "NeuralRegression_predict_body self x_i =
     (case np_dot_mv (w1 self) x_i of Inl e \<Rightarrow> Inl e | Inr d1 \<Rightarrow>
     (case bcast_vv (+) d1 (b1 self) of Inl e \<Rightarrow> Inl e | Inr z1 \<Rightarrow>
     (let h1 = np_maximum0 z1 in
     (case np_dot_mv (w2 self) h1 of Inl e \<Rightarrow> Inl e | Inr d2 \<Rightarrow>
     (case bcast_vv (+) d2 (b2 self) of Inl e \<Rightarrow> Inl e | Inr z2 \<Rightarrow>
     (case z2 of [] \<Rightarrow> Inl IndexError | z # _ \<Rightarrow> Inr z))))))"

fun NeuralRegression_predict_loop :: "NeuralRegression \<Rightarrow> vec list \<Rightarrow> vec \<Rightarrow> error + vec" where
  "NeuralRegression_predict_loop self [] Y_hat = Inr Y_hat"
| "NeuralRegression_predict_loop self (x_i # rest) Y_hat =
     (case NeuralRegression_predict_body self x_i of
        Inl e \<Rightarrow> Inl e
      | Inr z \<Rightarrow> NeuralRegression_predict_loop self rest (Y_hat @ [z]))"

definition NeuralRegression_predict :: "NeuralRegression \<Rightarrow> mat \<Rightarrow> (vec, NeuralRegression) result" where
  "NeuralRegression_predict self X = (NeuralRegression_predict_loop self (rows X) [], self)"

section \<open>The analytic solution\<close>

text \<open>
  \<^verbatim>\<open>solve_analytically\<close>. \<^verbatim>\<open>np.linalg.inv\<close> is LAPACK's and is the parameter \<open>linalg_inv\<close>:
  it returns a matrix or raises. The sum \<^verbatim>\<open>np.matmul(xt,X) + regulization\<close> is an
  ordinary elementwise sum of two arrays and broadcasts as such. The outer
  \<^verbatim>\<open>np.matmul\<close> has the one-dimensional \<open>y\<close> as its second argument.
\<close>

definition solve_analytically :: "(mat \<Rightarrow> error + mat) \<Rightarrow> mat \<Rightarrow> vec \<Rightarrow> error + vec" where
  "solve_analytically linalg_inv X y =
     (let xt = np_transpose X;
          regulization = scale_m 0.0001 (np_identity (min (nrows X) (ncols X)))
      in (case np_matmul xt X of Inl e \<Rightarrow> Inl e | Inr xtx \<Rightarrow>
         (case bcast_mm (+) xtx regulization of Inl e \<Rightarrow> Inl e | Inr m \<Rightarrow>
         (case linalg_inv m of Inl e \<Rightarrow> Inl e | Inr mi \<Rightarrow>
         (case np_matmul mi xt of Inl e \<Rightarrow> Inl e | Inr p \<Rightarrow>
            np_dot_mv p y)))))"

section \<open>The training loop's shuffle\<close>

text \<open>
  Lines 236 to 238 of \<^verbatim>\<open>main\<close>: \<open>train_order\<close> is the value of
  \<^verbatim>\<open>np.random.permutation(train_X.shape[0])\<close>, and both arrays are indexed by it. The
  result is what the epoch passes to \<^verbatim>\<open>train_epoch\<close> and what the next epoch starts
  from.
\<close>

definition shuffle :: "nat list \<Rightarrow> mat \<Rightarrow> vec \<Rightarrow> error + mat \<times> vec" where
  "shuffle train_order train_X train_y =
     (case np_take (rows train_X) train_order of
        Inl e \<Rightarrow> Inl e
      | Inr rs \<Rightarrow>
          (case np_take train_y train_order of
             Inl e \<Rightarrow> Inl e
           | Inr ys \<Rightarrow> Inr (Mat (ncols train_X) rs, ys)))"

section \<open>What the specification says, in its own words\<close>

text \<open>
  The operations of linear algebra on arrays of the right shapes, with no shape check
  and no broadcasting: the specification's formulas are written with these.
\<close>

definition matvec :: "vec list \<Rightarrow> vec \<Rightarrow> vec" where
  "matvec A x = map (\<lambda>r. dotp r x) A"

definition vadd :: "vec \<Rightarrow> vec \<Rightarrow> vec" where
  "vadd a b = map2 (+) a b"

definition relu :: "vec \<Rightarrow> vec" where
  "relu a = map (\<lambda>x. max x 0) a"

definition outer :: "vec \<Rightarrow> vec \<Rightarrow> vec list" where
  "outer a b = map (\<lambda>x. map (\<lambda>y. x * y) b) a"

definition masked :: "vec \<Rightarrow> vec \<Rightarrow> vec" where
  "masked g h = map2 (\<lambda>gj hj. if hj > 0 then gj else 0) g h"

definition descend_v :: "real \<Rightarrow> vec \<Rightarrow> vec \<Rightarrow> vec" where
  "descend_v lr p g = map2 (\<lambda>pj gj. pj - lr * gj) p g"

definition descend_m :: "real \<Rightarrow> mat \<Rightarrow> vec list \<Rightarrow> mat" where
  "descend_m lr P G = Mat (ncols P) (map2 (descend_v lr) (rows P) G)"

text \<open>Root mean squared error: the square root of the mean of the squared errors.\<close>

definition rmse :: "vec \<Rightarrow> vec \<Rightarrow> real" where
  "rmse yhat y = sqrt (sum_list (map (\<lambda>(p, t). (p - t)\<^sup>2) (zip yhat y)) / real (length y))"

text \<open>The forward pass of the network for one row, up to the output before its ReLU.\<close>

definition spec_z2 :: "NeuralRegression \<Rightarrow> vec \<Rightarrow> vec" where
  "spec_z2 self x_i =
     vadd (matvec (rows (w2 self)) (relu (vadd (matvec (rows (w1 self)) x_i) (b1 self)))) (b2 self)"

text \<open>The update of the network as the specification describes it.\<close>

definition spec_update :: "NeuralRegression \<Rightarrow> vec \<Rightarrow> real \<Rightarrow> real \<Rightarrow> NeuralRegression" where
  "spec_update self x_i y_i learning_rate =
     (let z1 = vadd (matvec (rows (w1 self)) x_i) (b1 self);
          h1 = relu z1;
          z2 = vadd (matvec (rows (w2 self)) h1) (b2 self);
          h2 = relu z2;
          grad_z2 = map (\<lambda>h. h - y_i) h2;
          grad_W2 = outer grad_z2 h1;
          grad_b2 = grad_z2;
          grad_z1 = masked (matvec (transpose (rows (w2 self))) grad_z2) h1;
          grad_W1 = outer grad_z1 x_i;
          grad_b1 = grad_z1
      in \<lparr>w1 = descend_m learning_rate (w1 self) grad_W1,
          b1 = descend_v learning_rate (b1 self) grad_b1,
          w2 = descend_m learning_rate (w2 self) grad_W2,
          b2 = descend_v learning_rate (b2 self) grad_b2\<rparr>)"

section \<open>Properties\<close>

subsection \<open>Arrays of matching shapes\<close>

text \<open>
  On arrays whose shapes match, the numpy operations neither raise nor stretch, and
  compute what the formulas of linear algebra say.
\<close>

lemma stretch_same [simp]: "length xs = n \<Longrightarrow> stretch n xs = xs"
  by (simp add: stretch_def)

lemma bdim_same [simp]: "bdim n n = Some n"
  by (simp add: bdim_def)

lemma map_stretch_id: "\<forall>r\<in>set ys. length r = c \<Longrightarrow> map (stretch c) ys = ys"
  by (induction ys) simp_all

lemma map_index: "map (\<lambda>j. f (xs ! j)) [0..<length xs] = map f xs"
proof -
  have "map (\<lambda>j. f (xs ! j)) [0..<length xs] = map f (map (nth xs) [0..<length xs])"
    by simp
  then show ?thesis by (simp only: map_nth)
qed

lemma dotp_commute: "dotp a b = dotp b a"
proof -
  have "map2 (*) a b = map2 (*) b a"
    by (induction a b rule: list_induct2') (simp_all add: mult.commute)
  then show ?thesis by (simp add: dotp_def)
qed

lemma length_matvec [simp]: "length (matvec A x) = length A"
  by (simp add: matvec_def)

lemma length_relu [simp]: "length (relu a) = length a"
  by (simp add: relu_def)

lemma length_vadd [simp]: "length (vadd a b) = min (length a) (length b)"
  by (simp add: vadd_def)

lemma length_positive_mask [simp]: "length (positive_mask a) = length a"
  by (simp add: positive_mask_def)

lemma length_np_maximum0 [simp]: "length (np_maximum0 a) = length a"
  by (simp add: np_maximum0_def)

lemma length_sub_vs [simp]: "length (sub_vs a s) = length a"
  by (simp add: sub_vs_def)

lemma length_masked [simp]: "length (masked g h) = min (length g) (length h)"
  by (simp add: masked_def)

lemma length_outer [simp]: "length (outer a b) = length a"
  by (simp add: outer_def)

lemma length_rows_outer: "r \<in> set (outer a b) \<Longrightarrow> length r = length b"
  by (auto simp: outer_def)

lemma nrows_scale_m [simp]: "nrows (scale_m s A) = nrows A"
  by (simp add: scale_m_def nrows_def)

lemma ncols_scale_m [simp]: "ncols (scale_m s A) = ncols A"
  by (simp add: scale_m_def)

lemma ncols_np_transpose [simp]: "ncols (np_transpose A) = nrows A"
  by (simp add: np_transpose_def)

lemma np_maximum0_relu: "np_maximum0 a = relu a"
  by (simp add: np_maximum0_def relu_def)

lemma bcast_vv_same: "length a = length b \<Longrightarrow> bcast_vv f a b = Inr (map2 f a b)"
  by (simp add: bcast_vv_def)

lemma np_dot_mv_same: "ncols A = length x \<Longrightarrow> np_dot_mv A x = Inr (matvec (rows A) x)"
  by (simp add: np_dot_mv_def matvec_def)

lemma np_isub_v_same:
  "length g = length a \<Longrightarrow> np_isub_v a (scale_v lr g) = Inr (descend_v lr a g)"
  by (simp add: np_isub_v_def scale_v_def descend_v_def zip_map2 case_prod_unfold)

lemma np_isub_m_same:
  assumes "length G = nrows A" and "\<forall>r\<in>set G. length r = ncols A"
  shows "np_isub_m A (scale_m lr (Mat (ncols A) G)) = Inr (descend_m lr A G)"
proof -
  have "\<forall>r\<in>set (map (scale_v lr) G). length r = ncols A"
    using assms(2) by (simp add: scale_v_def)
  then have "map (stretch (ncols A)) (map (scale_v lr) G) = map (scale_v lr) G"
    by (rule map_stretch_id)
  then have 1: "map (stretch (ncols A)) (stretch (nrows A) (rows (scale_m lr (Mat (ncols A) G))))
      = map (scale_v lr) G"
    using assms(1) by (simp add: scale_m_def)
  have 2: "map2 (-) a (scale_v lr g) = descend_v lr a g" for a g
    by (simp add: scale_v_def descend_v_def zip_map2 case_prod_unfold)
  have 3: "map2 (map2 (-)) R (map (scale_v lr) G) = map2 (descend_v lr) R G" for R
    by (induction R G rule: list_induct2') (simp_all add: 2)
  have n: "nrows (Mat (ncols A) G) = nrows A"
    using assms(1) by (simp add: nrows_def)
  show ?thesis
    unfolding np_isub_m_def by (simp add: n descend_m_def 1 3)
qed

lemma row_of_eq: "row_of a = Mat (length a) [a]"
proof -
  have "map (\<lambda>r. r ! 0) (map (\<lambda>x. [x]) a) = a"
    by (induction a) simp_all
  then show ?thesis
    by (simp add: row_of_def np_transpose_def column_of_def nrows_def col_def)
qed

lemma outer_product: "np_matmul (column_of g) (row_of h) = Inr (Mat (length h) (outer g h))"
proof -
  have "map (\<lambda>j. dotp [x] (col (Mat (length h) [h]) j)) [0..<length h] = map (\<lambda>y. x * y) h" for x
    using map_index [of "\<lambda>y. x * y" h] by (simp add: dotp_def col_def)
  then show ?thesis
    by (simp add: np_matmul_def row_of_eq column_of_def nrows_def outer_def comp_def)
qed

lemma transpose_single: "transpose [r] = map (\<lambda>a. [a]) r"
  by (induction r) simp_all

lemma length_transpose_single [simp]: "length (transpose [r]) = length r"
  by (simp add: transpose_single)

lemma rows_np_transpose:
  assumes "wf_mat A" and "rows A \<noteq> []"
  shows "rows (np_transpose A) = transpose (rows A)"
proof -
  have rect: "\<And>i. i < length (rows A) \<Longrightarrow> length (rows A ! i) = ncols A"
    using assms(1) by (simp add: wf_mat_def list_all_length)
  have "transpose (rows A) =
      map (\<lambda>i. map (\<lambda>j. rows A ! j ! i) [0..<length (rows A)]) [0..<ncols A]"
    by (rule transpose_rectangle) (use assms(2) rect in simp_all)
  moreover have "col A i = map (\<lambda>j. rows A ! j ! i) [0..<length (rows A)]" for i
    using map_index [of "\<lambda>r. r ! i" "rows A"] by (simp add: col_def)
  ultimately show ?thesis
    by (simp add: np_transpose_def)
qed

lemma masked_eq: "map2 (*) g (positive_mask h) = masked g h"
  by (induction g h rule: list_induct2') (simp_all add: positive_mask_def masked_def)

subsection \<open>One epoch is a left fold\<close>

lemma foldl_raised:
  "foldl (\<lambda>r (x_i, y_i). case r of (Inl e, s') \<Rightarrow> (Inl e, s') | (Inr _, s') \<Rightarrow> upd s' x_i y_i lr)
     (Inl e, s) ps = (Inl e, s)"
  by (induction ps) (simp_all add: case_prod_unfold)

lemma train_epoch_loop_foldl:
  "train_epoch_loop upd s ps lr =
     foldl (\<lambda>r (x_i, y_i). case r of (Inl e, s') \<Rightarrow> (Inl e, s') | (Inr _, s') \<Rightarrow> upd s' x_i y_i lr)
       (Inr (), s) ps"
proof (induction ps arbitrary: s)
  case Nil
  show ?case by simp
next
  case (Cons p ps)
  obtain x_i y_i where p: "p = (x_i, y_i)" by (cases p)
  obtain r s' where u: "upd s x_i y_i lr = (r, s')"
    by (cases "upd s x_i y_i lr")
  show ?case
  proof (cases r)
    case (Inl e)
    with p u show ?thesis by (simp add: foldl_raised)
  next
    case (Inr v)
    with p u Cons.IH [of s'] show ?thesis by simp
  qed
qed

text \<open>
  C6. \<^verbatim>\<open>train_epoch\<close> is the left fold of \<^verbatim>\<open>update_weight\<close> over the rows of \<open>X\<close>
  paired with the entries of \<open>y\<close>, in their order: every example is visited once, each
  update starts from the state the previous one left, and nothing is accumulated across
  examples. An exception of an update ends the epoch with the state reached so far.
\<close>

theorem train_epoch_is_foldl:
  "train_epoch update_weight self X y learning_rate =
     foldl (\<lambda>r (x_i, y_i). case r of
                (Inl e, self') \<Rightarrow> (Inl e, self')
              | (Inr _, self') \<Rightarrow> update_weight self' x_i y_i learning_rate)
       (Inr (), self) (zip (rows X) y)"
  by (simp add: train_epoch_def train_epoch_loop_foldl)

subsection \<open>The update of the linear model\<close>

text \<open>
  C2. For an example whose row is as long as the weight vector,
  \<^verbatim>\<open>LinearRegression.update_weight\<close> computes \<open>y_hat = w \<cdot> x_i\<close>, and replaces \<open>w\<close> by
  \<open>w - learning_rate * (- x_i * (y_i - y_hat))\<close> when \<open>y_hat \<noteq> y_i\<close>; when
  \<open>y_hat = y_i\<close> it leaves \<open>w\<close> as it is. It raises nothing.
\<close>

theorem LinearRegression_update_weight_rule:
  assumes "length x_i = length (w self)"
  shows "LinearRegression_update_weight self x_i y_i learning_rate =
     (let y_hat = dotp (w self) x_i in
      (Inr (),
       if y_hat \<noteq> y_i
       then self\<lparr>w := descend_v learning_rate (w self) (map (\<lambda>x. - x * (y_i - y_hat)) x_i)\<rparr>
       else self))"
  using assms
  by (simp add: LinearRegression_update_weight_def LinearRegression_predict_row_def np_dot_vv_def
      np_dot_vs_def np_isub_v_same dotp_commute [of x_i] Let_def comp_def)

theorem LinearRegression_update_weight_rule_witness:
  "length [1, 2 :: real] = length (w \<lparr>w = [0, 0]\<rparr>) \<and>
   LinearRegression_update_weight \<lparr>w = [0, 0]\<rparr> [1, 2] 3 (1 / 2) = (Inr (), \<lparr>w = [3 / 2, 3]\<rparr>) \<and>
   LinearRegression_update_weight \<lparr>w = [1, 1]\<rparr> [1, 2] 3 (1 / 2) = (Inr (), \<lparr>w = [1, 1]\<rparr>)"
proof -
  have h: "length [1, 2 :: real] = length (w \<lparr>w = [0, 0]\<rparr>)"
    "length [1, 2 :: real] = length (w \<lparr>w = [1, 1]\<rparr>)" by simp_all
  show ?thesis
    using h(1)
      LinearRegression_update_weight_rule [OF h(1), of 3 "1 / 2"]
      LinearRegression_update_weight_rule [OF h(2), of 3 "1 / 2"]
    by (simp add: dotp_def descend_v_def)
qed

subsection \<open>The update of the network\<close>

text \<open>
  C3. For a network of the shapes \<^verbatim>\<open>__init__\<close> sets up and a row with \<open>n_features\<close>
  entries, \<^verbatim>\<open>NeuralRegression.update_weight\<close> raises nothing and leaves the network
  in the state \<open>spec_update\<close> describes: the forward pass \<open>z1\<close>, \<open>h1\<close>, \<open>z2\<close>, \<open>h2\<close>, the
  output gradient \<open>h2 - y_i\<close> seeded on the ReLU'd output, the gradients of both layers
  with the hidden gradient masked where \<open>h1\<close> is not positive, and \<open>learning_rate\<close>
  times its gradient subtracted from each of \<open>w1\<close>, \<open>b1\<close>, \<open>w2\<close>, \<open>b2\<close>.
\<close>

theorem NeuralRegression_update_weight_backprop:
  assumes shape: "NeuralRegression_shape n_features hidden self"
    and x: "length x_i = n_features"
  shows "NeuralRegression_update_weight self x_i y_i learning_rate =
           (Inr (), spec_update self x_i y_i learning_rate)"
proof -
  have w1: "wf_mat (w1 self)" "ncols (w1 self) = n_features" "nrows (w1 self) = hidden"
    and b1: "length (b1 self) = hidden"
    and w2: "wf_mat (w2 self)" "ncols (w2 self) = hidden" "nrows (w2 self) = 1"
    and b2: "length (b2 self) = 1"
    using shape by (simp_all add: NeuralRegression_shape_def)
  obtain r2 where r2: "rows (w2 self) = [r2]"
    using w2(3) by (cases "rows (w2 self)") (auto simp: nrows_def)
  let ?d1 = "matvec (rows (w1 self)) x_i"
  let ?z1 = "vadd ?d1 (b1 self)"
  let ?h1 = "np_maximum0 ?z1"
  let ?d2 = "matvec (rows (w2 self)) ?h1"
  let ?z2 = "vadd ?d2 (b2 self)"
  let ?g2 = "sub_vs (np_maximum0 ?z2) y_i"
  let ?gh1 = "matvec (transpose (rows (w2 self))) ?g2"
  let ?gz1 = "masked ?gh1 ?h1"
  have len_h1: "length ?h1 = hidden"
    using w1(3) b1 by (simp add: nrows_def)
  have len_g2: "length ?g2 = 1"
    using w2(3) b2 by (simp add: nrows_def)
  have len_gz1: "length ?gz1 = hidden"
    using len_h1 w2 r2 by (simp add: wf_mat_def)
  have s1: "np_dot_mv (w1 self) x_i = Inr ?d1"
    using w1(2) x by (simp add: np_dot_mv_same)
  have s2: "bcast_vv (+) ?d1 (b1 self) = Inr ?z1"
    using w1(3) b1 by (simp add: bcast_vv_same vadd_def nrows_def)
  have s3: "np_dot_mv (w2 self) ?h1 = Inr ?d2"
    using w2(2) len_h1 by (simp add: np_dot_mv_same)
  have s4: "bcast_vv (+) ?d2 (b2 self) = Inr ?z2"
    using w2(3) b2 by (simp add: bcast_vv_same vadd_def nrows_def)
  have s5: "np_matmul (column_of ?g2) (row_of ?h1) = Inr (Mat hidden (outer ?g2 ?h1))"
    using len_h1 by (simp only: outer_product)
  have s6: "np_dot_mv (np_transpose (w2 self)) ?g2 = Inr ?gh1"
    using w2 len_g2 r2 by (simp add: np_dot_mv_same rows_np_transpose)
  have s7: "bcast_vv (*) ?gh1 (positive_mask ?h1) = Inr ?gz1"
    using len_h1 w2 r2 by (simp add: bcast_vv_same masked_eq wf_mat_def)
  have s8: "np_matmul (column_of ?gz1) (row_of x_i) = Inr (Mat (ncols (w1 self)) (outer ?gz1 x_i))"
    using x w1(2) by (simp only: outer_product)
  have s9: "np_isub_m (w1 self) (scale_m learning_rate (Mat (ncols (w1 self)) (outer ?gz1 x_i))) =
      Inr (descend_m learning_rate (w1 self) (outer ?gz1 x_i))"
  proof (rule np_isub_m_same)
    show "length (outer ?gz1 x_i) = nrows (w1 self)"
      using len_gz1 w1(3) by (simp only: length_outer)
    show "\<forall>r\<in>set (outer ?gz1 x_i). length r = ncols (w1 self)"
      using x w1(2) by (simp add: length_rows_outer)
  qed
  have s10: "np_isub_v (b1 self) (scale_v learning_rate ?gz1) =
      Inr (descend_v learning_rate (b1 self) ?gz1)"
    using len_gz1 b1 by (simp only: np_isub_v_same)
  have s11: "np_isub_m (w2 self) (scale_m learning_rate (Mat hidden (outer ?g2 ?h1))) =
      Inr (descend_m learning_rate (w2 self) (outer ?g2 ?h1))"
  proof -
    have "np_isub_m (w2 self) (scale_m learning_rate (Mat (ncols (w2 self)) (outer ?g2 ?h1))) =
      Inr (descend_m learning_rate (w2 self) (outer ?g2 ?h1))"
    proof (rule np_isub_m_same)
      show "length (outer ?g2 ?h1) = nrows (w2 self)"
        using len_g2 w2(3) by (simp only: length_outer)
      show "\<forall>r\<in>set (outer ?g2 ?h1). length r = ncols (w2 self)"
        using len_h1 w2(2) by (simp add: length_rows_outer)
    qed
    then show ?thesis by (simp only: w2(2))
  qed
  have s12: "np_isub_v (b2 self) (scale_v learning_rate ?g2) =
      Inr (descend_v learning_rate (b2 self) ?g2)"
    using len_g2 b2 by (simp only: np_isub_v_same)
  have code: "NeuralRegression_update_weight self x_i y_i learning_rate =
     (Inr (), \<lparr>w1 = descend_m learning_rate (w1 self) (outer ?gz1 x_i),
               b1 = descend_v learning_rate (b1 self) ?gz1,
               w2 = descend_m learning_rate (w2 self) (outer ?g2 ?h1),
               b2 = descend_v learning_rate (b2 self) ?g2\<rparr>)"
    unfolding NeuralRegression_update_weight_def
    by (simp add: s1 s2 s3 s4 s5 s6 s7 s8 s9 s10 s11 s12 Let_def)
  have spec: "spec_update self x_i y_i learning_rate =
     \<lparr>w1 = descend_m learning_rate (w1 self) (outer ?gz1 x_i),
      b1 = descend_v learning_rate (b1 self) ?gz1,
      w2 = descend_m learning_rate (w2 self) (outer ?g2 ?h1),
      b2 = descend_v learning_rate (b2 self) ?g2\<rparr>"
    by (simp add: spec_update_def Let_def np_maximum0_relu sub_vs_def)
  show ?thesis
    by (simp only: code spec)
qed

theorem NeuralRegression_update_weight_backprop_witness:
  "NeuralRegression_shape 2 3
     \<lparr>w1 = Mat 2 [[1, 2], [3, - 4], [0, 1]], b1 = [0, 0, 1], w2 = Mat 3 [[1, 1, 2]], b2 = [1]\<rparr> \<and>
   length [1, 2 :: real] = 2 \<and>
   NeuralRegression_update_weight
     \<lparr>w1 = Mat 2 [[1, 2], [3, - 4], [0, 1]], b1 = [0, 0, 1], w2 = Mat 3 [[1, 1, 2]], b2 = [1]\<rparr>
     [1, 2] 3 (1 / 2) =
   (Inr (), \<lparr>w1 = Mat 2 [[- (7 / 2), - 7], [3, - 4], [- 9, - 17]], b1 = [- (9 / 2), 0, - 8],
              w2 = Mat 3 [[- (43 / 2), 1, - (23 / 2)]], b2 = [- (7 / 2)]\<rparr>)"
proof -
  have h: "NeuralRegression_shape 2 3
     \<lparr>w1 = Mat 2 [[1, 2], [3, - 4], [0, 1]], b1 = [0, 0, 1], w2 = Mat 3 [[1, 1, 2]], b2 = [1]\<rparr>"
    by (simp add: NeuralRegression_shape_def wf_mat_def nrows_def)
  have l: "length [1, 2 :: real] = 2" by simp
  show ?thesis
    using h NeuralRegression_update_weight_backprop [OF h l, of 3 "1 / 2"]
    by (simp add: spec_update_def Let_def matvec_def vadd_def relu_def dotp_def outer_def
        masked_def descend_m_def descend_v_def)
qed

subsection \<open>The prediction of the network\<close>

lemma NeuralRegression_predict_body_eq:
  assumes shape: "NeuralRegression_shape n_features hidden self"
    and x: "length x_i = n_features"
  shows "\<exists>z. spec_z2 self x_i = [z] \<and> NeuralRegression_predict_body self x_i = Inr z"
proof -
  have w1: "ncols (w1 self) = n_features" "nrows (w1 self) = hidden"
    and b1: "length (b1 self) = hidden"
    and w2: "ncols (w2 self) = hidden" "nrows (w2 self) = 1"
    and b2: "length (b2 self) = 1"
    using shape by (simp_all add: NeuralRegression_shape_def)
  let ?d1 = "matvec (rows (w1 self)) x_i"
  let ?z1 = "vadd ?d1 (b1 self)"
  let ?h1 = "np_maximum0 ?z1"
  let ?d2 = "matvec (rows (w2 self)) ?h1"
  let ?z2 = "vadd ?d2 (b2 self)"
  have len_h1: "length ?h1 = hidden"
    using w1(2) b1 by (simp add: nrows_def)
  have "length ?z2 = 1"
    using w2(2) b2 by (simp add: nrows_def)
  then obtain z where z: "?z2 = [z]"
    by (cases ?z2) simp_all
  have s1: "np_dot_mv (w1 self) x_i = Inr ?d1"
    using w1(1) x by (simp add: np_dot_mv_same)
  have s2: "bcast_vv (+) ?d1 (b1 self) = Inr ?z1"
    using w1(2) b1 by (simp add: bcast_vv_same vadd_def nrows_def)
  have s3: "np_dot_mv (w2 self) ?h1 = Inr ?d2"
    using w2(1) len_h1 by (simp add: np_dot_mv_same)
  have s4: "bcast_vv (+) ?d2 (b2 self) = Inr ?z2"
    using w2(2) b2 by (simp add: bcast_vv_same vadd_def nrows_def)
  have "NeuralRegression_predict_body self x_i = Inr z"
    unfolding NeuralRegression_predict_body_def
    by (simp add: s1 s2 s3 s4 Let_def z)
  moreover have "spec_z2 self x_i = [z]"
    using z by (simp add: spec_z2_def np_maximum0_relu)
  ultimately show ?thesis by blast
qed

lemma NeuralRegression_predict_loop_eq:
  assumes shape: "NeuralRegression_shape n_features hidden self"
    and xs: "\<forall>x_i\<in>set xs. length x_i = n_features"
  shows "NeuralRegression_predict_loop self xs Y_hat = Inr (Y_hat @ concat (map (spec_z2 self) xs))"
  using xs
proof (induction xs arbitrary: Y_hat)
  case Nil
  show ?case by simp
next
  case (Cons x_i rest)
  from Cons.prems have "length x_i = n_features" by simp
  from NeuralRegression_predict_body_eq [OF shape this]
  obtain z where z: "spec_z2 self x_i = [z]" "NeuralRegression_predict_body self x_i = Inr z"
    by blast
  from Cons.prems have "\<forall>x_i\<in>set rest. length x_i = n_features" by simp
  from Cons.IH [OF this, of "Y_hat @ [z]"] z show ?case by simp
qed

text \<open>
  C4. For a network of the constructor's shapes and an \<open>X\<close> with \<open>n_features\<close>
  columns, \<^verbatim>\<open>NeuralRegression.predict\<close> raises nothing, leaves the network as it
  is, and returns for each row of \<open>X\<close>, in order, the one entry of
  \<open>z2 = W2 \<cdot> max (W1 \<cdot> x_i + b1) 0 + b2\<close>, with no ReLU on it: one scalar per row.
\<close>

theorem NeuralRegression_predict_preactivation:
  assumes shape: "NeuralRegression_shape n_features hidden self"
    and X: "wf_mat X" "ncols X = n_features"
  shows "NeuralRegression_predict self X = (Inr (concat (map (spec_z2 self) (rows X))), self) \<and>
         (\<forall>x_i\<in>set (rows X). length (spec_z2 self x_i) = 1) \<and>
         length (concat (map (spec_z2 self) (rows X))) = nrows X"
proof -
  have xs: "\<forall>x_i\<in>set (rows X). length x_i = n_features"
    using X by (simp add: wf_mat_def list_all_iff)
  have one: "\<forall>x_i\<in>set (rows X). length (spec_z2 self x_i) = 1"
  proof
    fix x_i assume "x_i \<in> set (rows X)"
    with xs have "length x_i = n_features" by simp
    from NeuralRegression_predict_body_eq [OF shape this] show "length (spec_z2 self x_i) = 1"
      by auto
  qed
  have "length (concat (map (spec_z2 self) xs)) = length xs"
    if "\<forall>x_i\<in>set xs. length (spec_z2 self x_i) = 1" for xs
    using that by (induction xs) simp_all
  with one have "length (concat (map (spec_z2 self) (rows X))) = nrows X"
    by (simp add: nrows_def)
  with one NeuralRegression_predict_loop_eq [OF shape xs, of "[]"] show ?thesis
    by (simp add: NeuralRegression_predict_def)
qed

theorem NeuralRegression_predict_preactivation_witness:
  "NeuralRegression_shape 2 3
     \<lparr>w1 = Mat 2 [[1, 2], [3, - 4], [0, 1]], b1 = [0, 0, 1], w2 = Mat 3 [[1, 1, 2]], b2 = [- 4]\<rparr> \<and>
   wf_mat (Mat 2 [[1, 2], [0, 0], [- 1, - 1]]) \<and>
   fst (NeuralRegression_predict
     \<lparr>w1 = Mat 2 [[1, 2], [3, - 4], [0, 1]], b1 = [0, 0, 1], w2 = Mat 3 [[1, 1, 2]], b2 = [- 4]\<rparr>
     (Mat 2 [[1, 2], [0, 0], [- 1, - 1]])) = Inr [7, - 2, - 3]"
proof -
  have h: "NeuralRegression_shape 2 3
     \<lparr>w1 = Mat 2 [[1, 2], [3, - 4], [0, 1]], b1 = [0, 0, 1], w2 = Mat 3 [[1, 1, 2]], b2 = [- 4]\<rparr>"
    by (simp add: NeuralRegression_shape_def wf_mat_def nrows_def)
  have X: "wf_mat (Mat 2 [[1, 2], [0, 0], [- 1, - 1]])" "ncols (Mat 2 [[1, 2], [0, 0], [- 1, - 1]]) = 2"
    by (simp_all add: wf_mat_def)
  show ?thesis
    using h X(1) NeuralRegression_predict_preactivation [OF h X]
    by (simp add: spec_z2_def matvec_def vadd_def relu_def dotp_def)
qed

subsection \<open>Evaluation\<close>

lemma dotp_self: "dotp e e = sum_list (map (\<lambda>x. x * x) e)"
  unfolding dotp_def by (induction e) simp_all

text \<open>
  C5. When \<^verbatim>\<open>predict\<close> returns \<open>yhat\<close>, as long as the non-empty \<open>y\<close>, and leaves the
  model as it is, \<^verbatim>\<open>evaluate\<close> returns the root of the mean of the squared errors
  of \<open>yhat\<close> against \<open>y\<close> and leaves the model as it is; a second call, on the
  model the first one left, returns the same.
\<close>

theorem evaluate_rmse:
  assumes "predict self X = (Inr yhat, self)"
    and "length yhat = length y"
    and "y \<noteq> []"
  shows "evaluate predict self X y = (Inr (Some (rmse yhat y)), self) \<and>
         evaluate predict (snd (evaluate predict self X y)) X y = evaluate predict self X y"
proof -
  have "dotp (map2 (-) yhat y) (map2 (-) yhat y) =
      sum_list (map (\<lambda>(p, t). (p - t)\<^sup>2) (zip yhat y))"
    by (simp add: dotp_self case_prod_unfold power2_eq_square comp_def)
  with assms have "evaluate predict self X y = (Inr (Some (rmse yhat y)), self)"
    by (simp add: evaluate_def bcast_vv_same rmse_def Let_def)
  then show ?thesis by simp
qed

theorem evaluate_rmse_witness:
  "LinearRegression_predict \<lparr>w = [1, 1]\<rparr> (Mat 2 [[1, 2], [3, 4]]) = (Inr [3, 7], \<lparr>w = [1, 1]\<rparr>) \<and>
   length [3, 7 :: real] = length [3, 5 :: real] \<and> [3, 5 :: real] \<noteq> [] \<and>
   evaluate LinearRegression_predict \<lparr>w = [1, 1]\<rparr> (Mat 2 [[1, 2], [3, 4]]) [3, 5] =
     (Inr (Some (sqrt 2)), \<lparr>w = [1, 1]\<rparr>)"
proof -
  have p: "LinearRegression_predict \<lparr>w = [1, 1]\<rparr> (Mat 2 [[1, 2], [3, 4]]) = (Inr [3, 7], \<lparr>w = [1, 1]\<rparr>)"
    by (simp add: LinearRegression_predict_def np_dot_mv_def dotp_def)
  have l: "length [3, 7 :: real] = length [3, 5 :: real]" by simp
  have n: "[3, 5 :: real] \<noteq> []" by simp
  have r: "rmse [3, 7] [3, 5] = sqrt 2"
    by (simp add: rmse_def)
  show ?thesis
    using p evaluate_rmse [of LinearRegression_predict "\<lparr>w = [1, 1]\<rparr>" "Mat 2 [[1, 2], [3, 4]]"
        "[3, 7]" "[3, 5]", OF p l n]
    by (simp add: r)
qed

subsection \<open>A learning rate of zero\<close>

lemma sub_zeros: "length a = n \<Longrightarrow> map2 (-) a (replicate n (0::real)) = a"
  by (induction a arbitrary: n) auto

lemma stretch_replicate: "k = n \<or> k = 1 \<Longrightarrow> stretch n (replicate k x) = replicate n x"
  by (auto simp: stretch_def)

lemma scale_v_zero: "scale_v 0 g = replicate (length g) 0"
  by (induction g) (simp_all add: scale_v_def)

lemma np_isub_v_zero:
  "np_isub_v a (scale_v 0 g) = Inr a \<or> np_isub_v a (scale_v 0 g) = Inl ValueError"
  by (auto simp: np_isub_v_def scale_v_zero stretch_replicate sub_zeros)

lemma rows_scale_m_zero:
  assumes "wf_mat G"
  shows "rows (scale_m 0 G) = replicate (nrows G) (replicate (ncols G) 0)"
proof -
  have "map (scale_v 0) R = replicate (length R) (replicate c 0)"
    if "\<forall>r\<in>set R. length r = c" for R c
    using that by (induction R) (simp_all add: scale_v_zero)
  with assms show ?thesis
    by (simp add: scale_m_def nrows_def wf_mat_def list_all_iff)
qed

lemma sub_zero_rows:
  "\<forall>r\<in>set R. length r = c \<Longrightarrow> map2 (map2 (-)) R (replicate (length R) (replicate c (0::real))) = R"
  by (induction R) (simp_all add: sub_zeros)

lemma np_isub_m_zero:
  assumes "wf_mat A" and "wf_mat G"
  shows "np_isub_m A (scale_m 0 G) = Inr A \<or> np_isub_m A (scale_m 0 G) = Inl ValueError"
proof (cases "(nrows G = nrows A \<or> nrows G = 1) \<and> (ncols G = ncols A \<or> ncols G = 1)")
  case False
  then have "np_isub_m A (scale_m 0 G) = Inl ValueError"
    unfolding np_isub_m_def nrows_scale_m ncols_scale_m by (simp only: if_False)
  then show ?thesis by simp
next
  case True
  then have "map (stretch (ncols A)) (stretch (nrows A) (rows (scale_m 0 G))) =
      replicate (nrows A) (replicate (ncols A) 0)"
    by (simp add: rows_scale_m_zero [OF assms(2)] stretch_replicate)
  moreover have "map2 (map2 (-)) (rows A) (replicate (nrows A) (replicate (ncols A) 0)) = rows A"
    using assms(1) unfolding nrows_def by (intro sub_zero_rows) (simp add: wf_mat_def list_all_iff)
  ultimately have "np_isub_m A (scale_m 0 G) = Inr (Mat (ncols A) (rows A))"
    using True by (simp add: np_isub_m_def)
  then show ?thesis by simp
qed

lemma wf_np_matmul: "np_matmul A B = Inr C \<Longrightarrow> wf_mat C"
  by (auto simp: np_matmul_def wf_mat_def list_all_iff split: if_splits)

lemma NeuralRegression_update_weight_zero:
  assumes "wf_mat (w1 self)" and "wf_mat (w2 self)"
  shows "snd (NeuralRegression_update_weight self x_i y_i 0) = self"
proof -
  have m1: "np_isub_m (w1 self) (scale_m 0 G) = Inr A \<Longrightarrow> wf_mat G \<Longrightarrow> A = w1 self" for G A
    using np_isub_m_zero [OF assms(1), of G] by auto
  have m2: "np_isub_m (w2 self) (scale_m 0 G) = Inr A \<Longrightarrow> wf_mat G \<Longrightarrow> A = w2 self" for G A
    using np_isub_m_zero [OF assms(2), of G] by auto
  have v: "np_isub_v a (scale_v 0 g) = Inr a' \<Longrightarrow> a' = a" for a g a'
    using np_isub_v_zero [of a g] by auto
  show ?thesis
    unfolding NeuralRegression_update_weight_def Let_def
    by (auto split: sum.splits dest!: wf_np_matmul m1 m2 v)
qed


lemma train_epoch_loop_zero:
  assumes "wf_mat (w1 self)" and "wf_mat (w2 self)"
  shows "snd (train_epoch_loop NeuralRegression_update_weight self ps 0) = self"
proof (induction ps)
  case Nil
  show ?case by simp
next
  case (Cons p ps)
  obtain x_i y_i where p: "p = (x_i, y_i)" by (cases p)
  obtain r where u: "NeuralRegression_update_weight self x_i y_i 0 = (r, self)"
    using NeuralRegression_update_weight_zero [OF assms, of x_i y_i]
    by (cases "NeuralRegression_update_weight self x_i y_i 0") simp
  show ?case
    using Cons.IH by (cases r) (simp_all add: p u)
qed



subsection \<open>Shuffling keeps the examples\<close>

lemma zip_nth_upt:
  "length xs = n \<Longrightarrow> length ys = n \<Longrightarrow> map (\<lambda>i. (xs ! i, ys ! i)) [0..<n] = zip xs ys"
  by (rule nth_equalityI) simp_all

lemma shuffle_step:
  assumes p: "mset p = mset [0..<nrows X]" and y: "length y = nrows X"
  shows "shuffle p X y = Inr (Mat (ncols X) (map (\<lambda>i. rows X ! i) p), map (\<lambda>i. y ! i) p)"
    and "mset (zip (map (\<lambda>i. rows X ! i) p) (map (\<lambda>i. y ! i) p)) = mset (zip (rows X) y)"
    and "length p = nrows X"
proof -
  have "set p = set [0..<nrows X]"
    using p by (rule mset_eq_setD)
  then have range: "list_all (\<lambda>i. i < nrows X) p"
    by (simp add: list_all_iff)
  then show "shuffle p X y = Inr (Mat (ncols X) (map (\<lambda>i. rows X ! i) p), map (\<lambda>i. y ! i) p)"
    using y by (simp add: shuffle_def np_take_def nrows_def)
  have "zip (map (\<lambda>i. rows X ! i) p) (map (\<lambda>i. y ! i) p) = map (\<lambda>i. (rows X ! i, y ! i)) p"
    by (induction p) simp_all
  then have "mset (zip (map (\<lambda>i. rows X ! i) p) (map (\<lambda>i. y ! i) p)) =
      image_mset (\<lambda>i. (rows X ! i, y ! i)) (mset p)"
    by simp
  also have "\<dots> = mset (map (\<lambda>i. (rows X ! i, y ! i)) [0..<nrows X])"
    by (simp add: p)
  also have "\<dots> = mset (zip (rows X) y)"
    using y by (simp add: zip_nth_upt nrows_def)
  finally show "mset (zip (map (\<lambda>i. rows X ! i) p) (map (\<lambda>i. y ! i) p)) = mset (zip (rows X) y)" .
  show "length p = nrows X"
    using mset_eq_length [OF p] by simp
qed

text \<open>
  C8. When every epoch's \<open>train_order\<close> is a permutation of the row indices, and there
  are as many targets as rows, every epoch reorders the rows and the targets by that
  one permutation, and the pairs of row and target that any epoch passes to
  \<^verbatim>\<open>train_epoch\<close> are, as a multiset, the pairs supplied at the start: none dropped,
  none duplicated, none paired anew.
\<close>

theorem shuffle_keeps_pairs:
  assumes "\<forall>p\<in>set orders. mset p = mset [0..<nrows X]" and "length y = nrows X"
  shows "(\<forall>p\<in>set orders.
            shuffle p X y = Inr (Mat (ncols X) (map (\<lambda>i. rows X ! i) p), map (\<lambda>i. y ! i) p)) \<and>
         (\<exists>X' y'. foldl (\<lambda>d p. case d of Inl e \<Rightarrow> Inl e | Inr (X, y) \<Rightarrow> shuffle p X y)
                     (Inr (X, y)) orders = Inr (X', y') \<and>
                  mset (zip (rows X') y') = mset (zip (rows X) y))"
proof
  show "\<forall>p\<in>set orders.
      shuffle p X y = Inr (Mat (ncols X) (map (\<lambda>i. rows X ! i) p), map (\<lambda>i. y ! i) p)"
    using assms shuffle_step(1) by blast
  show "\<exists>X' y'. foldl (\<lambda>d p. case d of Inl e \<Rightarrow> Inl e | Inr (X, y) \<Rightarrow> shuffle p X y)
                     (Inr (X, y)) orders = Inr (X', y') \<and>
                  mset (zip (rows X') y') = mset (zip (rows X) y)"
    using assms
  proof (induction orders arbitrary: X y)
    case Nil
    show ?case by simp
  next
    case (Cons p orders)
    let ?X = "Mat (ncols X) (map (\<lambda>i. rows X ! i) p)" and ?y = "map (\<lambda>i. y ! i) p"
    have p: "mset p = mset [0..<nrows X]" using Cons.prems(1) by simp
    note step = shuffle_step [OF p Cons.prems(2)]
    have n: "nrows ?X = nrows X" using step(3) by (simp add: nrows_def)
    have "\<forall>q\<in>set orders. mset q = mset [0..<nrows ?X]"
      using Cons.prems(1) by (simp add: n)
    moreover have "length ?y = nrows ?X"
      by (simp add: nrows_def)
    ultimately obtain X' y' where
      "foldl (\<lambda>d p. case d of Inl e \<Rightarrow> Inl e | Inr (X, y) \<Rightarrow> shuffle p X y)
         (Inr (?X, ?y)) orders = Inr (X', y')"
      "mset (zip (rows X') y') = mset (zip (rows ?X) ?y)"
      using Cons.IH [of ?X ?y] by blast
    with step show ?case by simp
  qed
qed

theorem shuffle_keeps_pairs_witness:
  "mset [2, 0, 1] = mset [0..<nrows (Mat 2 [[1, 2], [3, 4], [5, 6]])] \<and>
   mset [1, 0, 2] = mset [0..<nrows (Mat 2 [[1, 2], [3, 4], [5, 6]])] \<and>
   length [10, 20, 30 :: real] = nrows (Mat 2 [[1, 2], [3, 4], [5, 6]]) \<and>
   shuffle [2, 0, 1] (Mat 2 [[1, 2], [3, 4], [5, 6]]) [10, 20, 30] =
     Inr (Mat 2 [[5, 6], [1, 2], [3, 4]], [30, 10, 20]) \<and>
   (\<exists>X' y'. foldl (\<lambda>d p. case d of Inl e \<Rightarrow> Inl e | Inr (X, y) \<Rightarrow> shuffle p X y)
              (Inr (Mat 2 [[1, 2], [3, 4], [5, 6]], [10, 20, 30])) [[2, 0, 1], [1, 0, 2]] = Inr (X', y') \<and>
            mset (zip (rows X') y') = mset (zip (rows (Mat 2 [[1, 2], [3, 4], [5, 6]])) [10, 20, 30]))"
proof -
  have u: "[0..<nrows (Mat 2 [[1, 2], [3, 4], [5, 6]])] = [0, 1, 2]"
    by (simp add: nrows_def upt_rec)
  have a: "mset [2, 0, 1] = mset [0..<nrows (Mat 2 [[1, 2], [3, 4], [5, 6]])]"
    and b: "mset [1, 0, 2] = mset [0..<nrows (Mat 2 [[1, 2], [3, 4], [5, 6]])]"
    unfolding u by simp_all
  have h: "\<forall>p\<in>set [[2, 0, 1], [1, 0, 2]]. mset p = mset [0..<nrows (Mat 2 [[1, 2], [3, 4], [5, 6]])]"
    using a b by simp
  have l: "length [10, 20, 30 :: real] = nrows (Mat 2 [[1, 2], [3, 4], [5, 6]])"
    by (simp add: nrows_def)
  note T = shuffle_keeps_pairs [OF h l]
  from T have "shuffle [2, 0, 1] (Mat 2 [[1, 2], [3, 4], [5, 6]]) [10, 20, 30] =
      Inr (Mat (ncols (Mat 2 [[1, 2], [3, 4], [5, 6]]))
             (map (\<lambda>i. rows (Mat 2 [[1, 2], [3, 4], [5, 6]]) ! i) [2, 0, 1]),
           map (\<lambda>i. [10, 20, 30] ! i) [2, 0, 1])"
    by (simp del: mset_upt)
  then have s: "shuffle [2, 0, 1] (Mat 2 [[1, 2], [3, 4], [5, 6]]) [10, 20, 30] =
     Inr (Mat 2 [[5, 6], [1, 2], [3, 4]], [30, 10, 20])"
    by simp
  from T have e: "\<exists>X' y'. foldl (\<lambda>d p. case d of Inl e \<Rightarrow> Inl e | Inr (X, y) \<Rightarrow> shuffle p X y)
              (Inr (Mat 2 [[1, 2], [3, 4], [5, 6]], [10, 20, 30])) [[2, 0, 1], [1, 0, 2]] = Inr (X', y') \<and>
            mset (zip (rows X') y') = mset (zip (rows (Mat 2 [[1, 2], [3, 4], [5, 6]])) [10, 20, 30])"
    by (rule conjunct2)
  from a b l s e show ?thesis
    by (intro conjI)
qed

subsection \<open>Mismatched feature dimensions\<close>

lemma LinearRegression_update_weight_mismatch:
  "length x_i \<noteq> length (w self) \<Longrightarrow>
     LinearRegression_update_weight self x_i y_i lr = (Inl ValueError, self)"
  by (simp add: LinearRegression_update_weight_def LinearRegression_predict_row_def np_dot_vv_def)

lemma NeuralRegression_update_weight_mismatch:
  "length x_i \<noteq> ncols (w1 self) \<Longrightarrow>
     NeuralRegression_update_weight self x_i y_i lr = (Inl ValueError, self)"
  by (simp add: NeuralRegression_update_weight_def np_dot_mv_def)




subsection \<open>Rows and targets of different numbers\<close>

lemma zip_take_min: "zip (take (min (length xs) (length ys)) xs) (take (min (length xs) (length ys)) ys) = zip xs ys"
proof -
  have "zip (take (min (length xs) (length ys)) xs) (take (min (length xs) (length ys)) ys) =
      take (min (length xs) (length ys)) (zip xs ys)"
    by (simp only: take_zip)
  then show ?thesis by simp
qed

lemma LinearRegression_update_weight_fits:
  assumes "length x_i = length (w self)"
  shows "\<exists>self'. LinearRegression_update_weight self x_i y_i lr = (Inr (), self') \<and>
           length (w self') = length (w self)"
  using assms
  by (simp add: LinearRegression_update_weight_def LinearRegression_predict_row_def np_dot_vv_def
      np_dot_vs_def np_isub_v_def scale_v_def Let_def)

lemma LinearRegression_train_epoch_loop_fits:
  assumes "\<forall>p\<in>set ps. length (fst p) = length (w self)"
  shows "fst (train_epoch_loop LinearRegression_update_weight self ps lr) = Inr ()"
  using assms
proof (induction ps arbitrary: self)
  case Nil
  show ?case by simp
next
  case (Cons p ps)
  obtain x_i y_i where p: "p = (x_i, y_i)" by (cases p)
  with Cons.prems have "length x_i = length (w self)" by simp
  from LinearRegression_update_weight_fits [OF this, of y_i lr]
  obtain self' where u: "LinearRegression_update_weight self x_i y_i lr = (Inr (), self')"
    and l: "length (w self') = length (w self)" by blast
  from Cons.prems l have "\<forall>p\<in>set ps. length (fst p) = length (w self')" by simp
  from Cons.IH [OF this] show ?case by (simp add: p u)
qed



subsection \<open>The analytic solution\<close>

lemma nrows_np_transpose [simp]: "nrows (np_transpose A) = ncols A"
  by (simp add: np_transpose_def nrows_def)

lemma shape_np_identity [simp]: "nrows (np_identity k) = k" "ncols (np_identity k) = k"
  by (simp_all add: np_identity_def nrows_def)

lemma dotp_sum: "length r = length c \<Longrightarrow> dotp r c = (\<Sum>k = 0..<length r. r ! k * c ! k)"
proof -
  assume l: "length r = length c"
  have "dotp r c = (\<Sum>k = 0..<length (map2 (*) r c). map2 (*) r c ! k)"
    unfolding dotp_def by (rule sum_list_sum_nth)
  also have "\<dots> = (\<Sum>k = 0..<length r. r ! k * c ! k)"
    using l by (intro sum.cong) simp_all
  finally show ?thesis .
qed

lemma dotp_matvec:
  assumes r: "length r = nrows B" and B: "wf_mat B" and v: "length v = ncols B"
  shows "dotp r (matvec (rows B) v) = dotp (map (\<lambda>j. dotp r (col B j)) [0..<ncols B]) v"
proof -
  have row: "\<And>k. k < nrows B \<Longrightarrow> length (rows B ! k) = ncols B"
    using B by (simp add: wf_mat_def list_all_length nrows_def)
  have "dotp r (matvec (rows B) v) = (\<Sum>k = 0..<nrows B. r ! k * matvec (rows B) v ! k)"
    using r by (simp add: dotp_sum nrows_def)
  also have "\<dots> = (\<Sum>k = 0..<nrows B. r ! k * (\<Sum>j = 0..<ncols B. rows B ! k ! j * v ! j))"
    using row v by (intro sum.cong) (simp_all add: matvec_def nrows_def dotp_sum)
  also have "\<dots> = (\<Sum>k = 0..<nrows B. \<Sum>j = 0..<ncols B. r ! k * rows B ! k ! j * v ! j)"
    by (simp add: sum_distrib_left mult.assoc)
  also have "\<dots> = (\<Sum>j = 0..<ncols B. \<Sum>k = 0..<nrows B. r ! k * rows B ! k ! j * v ! j)"
    by (rule sum.swap)
  also have "\<dots> = (\<Sum>j = 0..<ncols B. (\<Sum>k = 0..<nrows B. r ! k * rows B ! k ! j) * v ! j)"
    by (simp add: sum_distrib_right)
  also have "\<dots> = (\<Sum>j = 0..<ncols B. dotp r (col B j) * v ! j)"
    using r by (intro sum.cong) (simp_all add: dotp_sum col_def nrows_def)
  also have "\<dots> = dotp (map (\<lambda>j. dotp r (col B j)) [0..<ncols B]) v"
    using v by (simp add: dotp_sum)
  finally show ?thesis .
qed

lemma matvec_np_matmul:
  assumes A: "wf_mat A" and AB: "ncols A = nrows B" and B: "wf_mat B" and v: "length v = ncols B"
    and C: "np_matmul A B = Inr C"
  shows "matvec (rows C) v = matvec (rows A) (matvec (rows B) v)"
proof -
  have C': "rows C = map (\<lambda>r. map (\<lambda>j. dotp r (col B j)) [0..<ncols B]) (rows A)"
    using C AB by (auto simp: np_matmul_def)
  have "\<forall>r\<in>set (rows A). length r = nrows B"
    using A AB by (simp add: wf_mat_def list_all_iff)
  then have "\<forall>r\<in>set (rows A).
      dotp (map (\<lambda>j. dotp r (col B j)) [0..<ncols B]) v = dotp r (matvec (rows B) v)"
    using dotp_matvec [OF _ B v] by simp
  then show ?thesis
    unfolding C' by (simp add: matvec_def [of "map _ _"] matvec_def [of "rows A"])
qed

lemma matvec_np_identity: "length u = d \<Longrightarrow> matvec (rows (np_identity d)) u = u"
proof (rule nth_equalityI)
  assume l: "length u = d"
  then show "length (matvec (rows (np_identity d)) u) = length u"
    by (simp add: np_identity_def)
  fix i assume "i < length (matvec (rows (np_identity d)) u)"
  then have i: "i < d" by (simp add: np_identity_def)
  have "dotp (map (\<lambda>j. if i = j then 1 else 0) [0..<d]) u =
      (\<Sum>k = 0..<d. (if i = k then 1 else 0) * u ! k)"
    using l by (simp add: dotp_sum)
  also have "\<dots> = (\<Sum>k = 0..<d. if i = k then u ! k else 0)"
    by (intro sum.cong) simp_all
  also have "\<dots> = u ! i"
    using i by simp
  finally show "matvec (rows (np_identity d)) u ! i = u ! i"
    using i by (simp add: matvec_def np_identity_def)
qed


lemma length_stretch [simp]: "length (stretch n xs) = n"
  by (simp add: stretch_def)

lemma wf_np_transpose: "wf_mat (np_transpose A)"
  by (simp add: wf_mat_def np_transpose_def list_all_iff col_def nrows_def)

lemma bcast_mm_shape:
  assumes "bcast_mm f A B = Inr C" and "ncols A = ncols B"
  shows "wf_mat C \<and> ncols C = ncols A"
proof -
  from assms obtain r where
    "C = Mat (ncols A) (map2 (map2 f) (map (stretch (ncols A)) (stretch r (rows A)))
                                     (map (stretch (ncols A)) (stretch r (rows B))))"
    by (auto simp: bcast_mm_def split: option.splits)
  moreover have "\<forall>r\<in>set (map2 (map2 f) (map (stretch c) R1) (map (stretch c) R2)). length r = c"
    for c and R1 R2 :: "vec list"
    by (induction R1 R2 rule: list_induct2') simp_all
  ultimately show ?thesis
    by (simp add: wf_mat_def list_all_iff)
qed

text \<open>
  With at least as many points as features, \<open>min (nrows X) (ncols X)\<close> is the number
  of features and the regularisation is \<open>\<lambda>I\<close> of the shape of \<open>X\<^sup>T X\<close>. Then, when
  \<^verbatim>\<open>np.linalg.inv\<close> returns a right inverse of \<open>m = X\<^sup>T X + \<lambda>I\<close>, the result \<open>wv\<close>
  satisfies \<open>m wv = X\<^sup>T y\<close>.
\<close>

lemma solve_analytically_normal_equations:
  assumes nd: "ncols X \<le> nrows X" and y: "length y = nrows X"
    and xtx: "np_matmul (np_transpose X) X = Inr xtx"
    and m: "bcast_mm (+) xtx (scale_m 0.0001 (np_identity (ncols X))) = Inr m"
    and inv: "linalg_inv m = Inr mi"
    and mi: "wf_mat mi" "nrows mi = ncols X" "ncols mi = ncols X"
    and id: "np_matmul m mi = Inr (np_identity (ncols X))"
  shows "\<exists>wv. solve_analytically linalg_inv X y = Inr wv \<and>
           np_dot_mv m wv = np_dot_mv (np_transpose X) y"
proof -
  let ?xt = "np_transpose X"
  let ?u = "matvec (rows ?xt) y"
  have k: "min (nrows X) (ncols X) = ncols X"
    using nd by simp
  have "ncols xtx = ncols X"
    using xtx by (auto simp: np_matmul_def split: if_splits)
  with bcast_mm_shape [OF m] have wf_m: "wf_mat m" and ncols_m: "ncols m = ncols X"
    by simp_all
  obtain p where p: "np_matmul mi ?xt = Inr p"
    using mi(3) by (simp add: np_matmul_def)
  then have ncols_p: "ncols p = nrows X"
    by (auto simp: np_matmul_def split: if_splits)
  have wv: "matvec (rows p) y = matvec (rows mi) ?u"
    using mi(1) _ wf_np_transpose _ p by (rule matvec_np_matmul) (simp_all add: mi(3) y)
  have len_xt: "length (rows ?xt) = ncols X"
    by (simp add: np_transpose_def)
  then have len_u: "length ?u = ncols X"
    by simp
  have "matvec (rows (np_identity (ncols X))) ?u = matvec (rows m) (matvec (rows mi) ?u)"
    using wf_m _ mi(1) _ id by (rule matvec_np_matmul) (simp_all add: ncols_m mi len_xt)
  then have eq: "matvec (rows m) (matvec (rows mi) ?u) = ?u"
    by (simp only: matvec_np_identity [OF len_u])
  have len_wv: "length (matvec (rows p) y) = ncols X"
    using mi(2) by (simp add: wv nrows_def)
  have m': "bcast_mm (+) xtx (scale_m (1 / 10000) (np_identity (ncols X))) = Inr m"
    using m by simp
  have "solve_analytically linalg_inv X y = Inr (matvec (rows p) y)"
    unfolding solve_analytically_def Let_def k
    by (simp add: xtx m' inv p np_dot_mv_same ncols_p y)
  moreover have "np_dot_mv m (matvec (rows p) y) = np_dot_mv ?xt y"
    using len_wv by (simp add: np_dot_mv_same ncols_m y wv eq)
  ultimately show ?thesis by blast
qed


lemma upt_2: "[0..<2] = [0, 1]"
  by (simp add: upt_rec)

lemma replicate_2: "replicate 2 x = [x, x]"
  by (simp add: numeral_2_eq_2)

lemma solve_analytically_normal_equations_example:
  "solve_analytically (\<lambda>_. Inr (Mat 1 [[10000 / 20001]])) (Mat 1 [[1], [1]]) [1, 3] = Inr [40000 / 20001] \<and>
   np_dot_mv (Mat 1 [[20001 / 10000]]) [40000 / 20001] = np_dot_mv (np_transpose (Mat 1 [[1], [1]])) [1, 3]"
proof -
  let ?X = "Mat 1 [[1], [1]]"
  have xtx: "np_matmul (np_transpose ?X) ?X = Inr (Mat 1 [[2]])"
    by (simp add: np_matmul_def np_transpose_def nrows_def col_def dotp_def)
  have m: "bcast_mm (+) (Mat 1 [[2]]) (scale_m 0.0001 (np_identity (ncols ?X))) = Inr (Mat 1 [[20001 / 10000]])"
    by (simp add: bcast_mm_def np_identity_def scale_m_def scale_v_def nrows_def)
  have id: "np_matmul (Mat 1 [[20001 / 10000]]) (Mat 1 [[10000 / 20001]]) = Inr (np_identity (ncols ?X))"
    by (simp add: np_matmul_def np_identity_def nrows_def col_def dotp_def)
  from solve_analytically_normal_equations [of ?X "[1, 3]", OF _ _ xtx m _ _ _ _ id,
      of "\<lambda>_. Inr (Mat 1 [[10000 / 20001]])"]
  obtain wv where wv: "solve_analytically (\<lambda>_. Inr (Mat 1 [[10000 / 20001]])) ?X [1, 3] = Inr wv"
    "np_dot_mv (Mat 1 [[20001 / 10000]]) wv = np_dot_mv (np_transpose ?X) [1, 3]"
    by (auto simp: nrows_def wf_mat_def)
  have "solve_analytically (\<lambda>_. Inr (Mat 1 [[10000 / 20001]])) ?X [1, 3] = Inr [40000 / 20001]"
    unfolding solve_analytically_def Let_def
    by (simp add: xtx [simplified] m [simplified] np_matmul_def np_transpose_def nrows_def col_def
        dotp_def np_dot_mv_def upt_2)
  with wv show ?thesis by simp
qed

text \<open>
  With fewer points than features the regularisation has the shape
  \<open>(nrows X, nrows X)\<close>, not that of \<open>X\<^sup>T X\<close>. With one point it broadcasts: \<open>\<lambda>\<close> is
  added to every entry of \<open>X\<^sup>T X\<close>, and the result does not satisfy
  \<open>(X\<^sup>T X + \<lambda>I) wv = X\<^sup>T y\<close>.
\<close>

lemma solve_analytically_one_point_two_features:
  "solve_analytically
     (\<lambda>m. if m = Mat 2 [[10001 / 10000, 1 / 10000], [1 / 10000, 1 / 10000]]
          then Inr (Mat 2 [[1, - 1], [- 1, 10001]]) else Inl LinAlgError)
     (Mat 2 [[1, 0]]) [1] = Inr [1, - 1] \<and>
   np_matmul (Mat 2 [[10001 / 10000, 1 / 10000], [1 / 10000, 1 / 10000]]) (Mat 2 [[1, - 1], [- 1, 10001]])
     = Inr (np_identity 2) \<and>
   np_dot_mv (Mat 2 [[10001 / 10000, 0], [0, 1 / 10000]]) [1, - 1] \<noteq>
     np_dot_mv (np_transpose (Mat 2 [[1, 0]])) [1]"
  by (simp add: solve_analytically_def Let_def np_matmul_def np_transpose_def nrows_def col_def
      dotp_def np_dot_mv_def upt_2 replicate_2 bcast_mm_def bdim_def stretch_def np_identity_def
      scale_m_def scale_v_def)

text \<open>With two points or more, and more features than points, the sum raises.\<close>

lemma solve_analytically_underdetermined:
  assumes "1 < nrows X" and "nrows X < ncols X"
  shows "solve_analytically linalg_inv X y = Inl ValueError"
proof -
  let ?xtx = "Mat (ncols X) (map (\<lambda>r. map (\<lambda>j. dotp r (col X j)) [0..<ncols X]) (rows (np_transpose X)))"
  have 1: "np_matmul (np_transpose X) X = Inr ?xtx"
    by (simp add: np_matmul_def)
  have 2: "nrows ?xtx = ncols X" "ncols ?xtx = ncols X"
    using nrows_np_transpose [of X] by (simp_all add: nrows_def)
  have "bdim (ncols X) (min (nrows X) (ncols X)) = None"
    using assms by (simp add: bdim_def)
  then have "bcast_mm (+) ?xtx (scale_m 0.0001 (np_identity (min (nrows X) (ncols X)))) = Inl ValueError"
    unfolding bcast_mm_def by (simp add: 2)
  then show ?thesis
    unfolding solve_analytically_def Let_def by (simp add: 1)
qed

text \<open>
  C1. The claim is for every \<open>X\<close> and \<open>y\<close> of compatible shapes. For two points with
  three features, \<^verbatim>\<open>solve_analytically\<close> returns no \<open>w\<close>: the sum of the \<open>3 \<times> 3\<close>
  matrix \<open>X\<^sup>T X\<close> and the \<open>2 \<times> 2\<close> regularisation raises \<^verbatim>\<open>ValueError\<close>, whatever
  \<^verbatim>\<open>np.linalg.inv\<close> would do. The comment in the source says of the regularisation
  that it is always able to add it.
\<close>

theorem solve_analytically_raises_on_two_points_three_features:
  "solve_analytically linalg_inv (Mat 3 [[1, 0, 0], [0, 1, 0]]) [1, 1] = Inl ValueError"
  by (rule solve_analytically_underdetermined) (simp_all add: nrows_def)

end
